theory Spec2Isabelle
  imports Main "HOL-Library.Word"
begin

section \<open>MS/TP datalink facade of the PIC32MX795F512L port\<close>

text \<open>
  The development embeds the datalink facade (the second translation unit of
  \<^verbatim>\<open>ports/pic32mx795f512l/rs485.c\<close>: \<^verbatim>\<open>dlmstp_send_pdu\<close>, the configuration
  setters, the MS/TP callbacks) and the millisecond timer helpers of the port's
  \<^verbatim>\<open>main.c\<close>. The target is a 32-bit PIC32: \<^verbatim>\<open>int\<close>, \<^verbatim>\<open>unsigned\<close> and
  \<^verbatim>\<open>unsigned long\<close> are 32 bits wide.
\<close>

type_synonym uint8_t = "8 word"
type_synonym uint16_t = "16 word"
type_synonym uint32_t = "32 word"

subsection \<open>Declarations taken from headers outside the port\<close>

text \<open>
  \<^verbatim>\<open>MAX_MAC_LEN\<close> and the frame type codes are macros of the stack's
  headers (\<^verbatim>\<open>bacdef.h\<close>, \<^verbatim>\<open>mstp.h\<close>); the port only names them.
  \<^verbatim>\<open>MAX_MPDU\<close> is 501 in the port's \<^verbatim>\<open>dlmstp.h\<close>. The functions that use
  these macros take their values as a parameter, so that what is proved of
  them holds for every buffer size and numbering; \<open>sample_defs\<close> below
  carries the port's own size.
\<close>

record mstp_defs =
  MAX_MPDU :: nat
  MAX_MAC_LEN :: nat
  FRAME_TYPE_TEST_REQUEST :: uint8_t
  FRAME_TYPE_BACNET_DATA_EXPECTING_REPLY :: uint8_t
  FRAME_TYPE_BACNET_DATA_NOT_EXPECTING_REPLY :: uint8_t

text \<open>
  Modelled from the spec: the macro \<^verbatim>\<open>MSTP_BROADCAST_ADDRESS\<close> of \<^verbatim>\<open>mstp.h\<close>
  is not part of the port; the wire format fixes the broadcast destination
  as 0xFF.
\<close>

definition MSTP_BROADCAST_ADDRESS :: uint8_t where
  "MSTP_BROADCAST_ADDRESS = 0xFF"

text \<open>
  \<^verbatim>\<open>BACNET_ADDRESS\<close> and \<^verbatim>\<open>BACNET_NPDU_DATA\<close>, restricted to the members the
  port reads or writes.
\<close>

record BACNET_ADDRESS =
  mac_len :: uint8_t
  mac :: "uint8_t list"
  net :: uint16_t
  len :: uint8_t

record BACNET_NPDU_DATA =
  data_expecting_reply :: bool

text \<open>
  The buffer pointers of the port structure only ever refer to one of the two
  static arrays of the facade, or to nothing.
\<close>

datatype buffer_ptr = NULL | Receive_Buffer_ptr | Transmit_Buffer_ptr

text \<open>
  \<^verbatim>\<open>struct mstp_port_struct_t\<close>: the members the port names, and \<open>fsm\<close> for
  all the remaining members (receive and master state, counters), which only
  the state machine of the stack touches.
\<close>

record 'f mstp_port_struct_t =
  This_Station :: uint8_t
  Nmax_master :: uint8_t
  Nmax_info_frames :: uint8_t
  InputBuffer :: buffer_ptr
  InputBufferSize :: uint16_t
  OutputBuffer :: buffer_ptr
  OutputBufferSize :: uint16_t
  SilenceTimer :: uint32_t
  SilenceTimerReset :: uint32_t
  DataRegister :: uint8_t
  DataAvailable :: bool
  DestinationAddress :: uint8_t
  SourceAddress :: uint8_t
  FrameType :: uint8_t
  DataLength :: uint16_t
  fsm :: 'f

text \<open>\<^verbatim>\<open>struct mstimer\<close> of \<^verbatim>\<open>mstimer.h\<close>.\<close>

record mstimer =
  start :: uint32_t
  interval :: uint32_t

subsection \<open>Static data of the facade\<close>

text \<open>The anonymous struct behind \<^verbatim>\<open>Transmit_Packet\<close>.\<close>

record Transmit_Packet_t =
  ready :: bool
  destination :: uint8_t
  frame_type :: uint8_t
  pdu :: "uint8_t list"
  pdu_len :: uint16_t

text \<open>
  The file-scope variables of the facade, the tick counter of \<^verbatim>\<open>main.c\<close>, the
  baud rate generator register \<^verbatim>\<open>U1BRG\<close> of UART1, and a log of the calls made
  to the upper layer's \<^verbatim>\<open>npdu_handler\<close> (source address, buffer, length).
  The static \<^verbatim>\<open>This_Station\<close> is \<open>This_Station_var\<close> here, to keep it apart
  from the member of the port structure.
\<close>

record 'f dlmstp_state =
  MSTP_Port :: "'f mstp_port_struct_t"
  Receive_Buffer :: "uint8_t list"
  Transmit_Buffer :: "uint8_t list"
  Receive_Packet_Ready :: bool
  Receive_Address :: BACNET_ADDRESS
  Receive_PDU_Len :: uint16_t
  Transmit_Packet :: Transmit_Packet_t
  This_Station_var :: uint8_t
  Max_Master :: uint8_t
  Max_Info_Frames :: uint8_t
  Valid_Frame_Count :: uint32_t
  millisecond_counter :: uint32_t
  U1BRG :: uint32_t
  npdu_handler_calls :: "(BACNET_ADDRESS \<times> buffer_ptr \<times> uint16_t) list"

text \<open>
  The state after program start: statics without initialiser are zero, the
  three configuration variables carry their initialisers, and the register is
  at its reset value.
\<close>

definition startup_state :: "mstp_defs \<Rightarrow> 'f \<Rightarrow> 'f dlmstp_state" where
  "startup_state h f0 =
    \<lparr> MSTP_Port =
        \<lparr> This_Station = 0, Nmax_master = 0, Nmax_info_frames = 0,
          InputBuffer = NULL, InputBufferSize = 0,
          OutputBuffer = NULL, OutputBufferSize = 0,
          SilenceTimer = 0, SilenceTimerReset = 0,
          DataRegister = 0, DataAvailable = False,
          DestinationAddress = 0, SourceAddress = 0,
          FrameType = 0, DataLength = 0, fsm = f0 \<rparr>,
      Receive_Buffer = replicate (MAX_MPDU h) 0,
      Transmit_Buffer = replicate (MAX_MPDU h) 0,
      Receive_Packet_Ready = False,
      Receive_Address =
        \<lparr> mac_len = 0, mac = replicate (MAX_MAC_LEN h) 0, net = 0, len = 0 \<rparr>,
      Receive_PDU_Len = 0,
      Transmit_Packet =
        \<lparr> ready = False, destination = 0, frame_type = 0,
          pdu = replicate (MAX_MPDU h) 0, pdu_len = 0 \<rparr>,
      This_Station_var = 1,
      Max_Master = 127,
      Max_Info_Frames = 1,
      Valid_Frame_Count = 0,
      millisecond_counter = 0,
      U1BRG = 0,
      npdu_handler_calls = [] \<rparr>"

subsection \<open>Millisecond timer (\<^verbatim>\<open>main.c\<close>)\<close>

definition mstimer_now :: "'f dlmstp_state \<Rightarrow> uint32_t" where
  "mstimer_now s = millisecond_counter s"

text \<open>The timer pointer may be null: \<open>None\<close>.\<close>

definition mstimer_expired :: "'f dlmstp_state \<Rightarrow> mstimer option \<Rightarrow> int" where
  "mstimer_expired s t =
    (case t of
       Some tm \<Rightarrow> (if interval tm \<le> millisecond_counter s - start tm then 1 else 0)
     | None \<Rightarrow> 1)"

definition mstimer_elapsed :: "'f dlmstp_state \<Rightarrow> mstimer option \<Rightarrow> uint32_t" where
  "mstimer_elapsed s t =
    (case t of
       Some tm \<Rightarrow> millisecond_counter s - start tm
     | None \<Rightarrow> 0)"

subsection \<open>RS-485 transport (\<^verbatim>\<open>rs485.c\<close>, hardware build)\<close>

text \<open>\<^verbatim>\<open>GetPeripheralClock()\<close> of \<^verbatim>\<open>hardware.h\<close>: 80 MHz.\<close>

definition GetPeripheralClock :: uint32_t where
  "GetPeripheralClock = 80000000"

text \<open>
  The divisor for high-speed mode, in 32-bit unsigned arithmetic. The division
  is the unsigned one of C; a zero rate never reaches it from the facade.
\<close>

definition RS485_Set_Baud_Rate :: "'f dlmstp_state \<Rightarrow> uint32_t \<Rightarrow> 'f dlmstp_state" where
  "RS485_Set_Baud_Rate s baud =
    (let brg_value = (GetPeripheralClock div (4 * baud)) - 1
     in s\<lparr>U1BRG := brg_value\<rparr>)"

subsection \<open>Datalink facade\<close>

text \<open>
  \<^verbatim>\<open>memcpy(dst, src, n)\<close> into an array: the first \<open>n\<close> cells are taken from
  the source, the others keep their content, and the array keeps its size.
  The caller owns at least \<open>n\<close> source bytes.
\<close>

definition memcpy :: "uint8_t list \<Rightarrow> uint8_t list \<Rightarrow> nat \<Rightarrow> uint8_t list" where
  "memcpy dst src n = map (\<lambda>i. if i < n then src ! i else dst ! i) [0..<length dst]"

text \<open>
  \<^verbatim>\<open>dlmstp_send_pdu\<close>. Null pointers are \<open>None\<close>; the result is the new state
  and the \<^verbatim>\<open>int\<close> returned. The final \<^verbatim>\<open>return pdu_len\<close> converts the 32-bit
  unsigned length to \<^verbatim>\<open>int\<close>, and the store into the 16-bit member truncates.
\<close>

definition dlmstp_send_pdu ::
  "mstp_defs \<Rightarrow> 'f dlmstp_state \<Rightarrow> BACNET_ADDRESS option \<Rightarrow> BACNET_NPDU_DATA option
     \<Rightarrow> uint8_t list option \<Rightarrow> uint32_t \<Rightarrow> 'f dlmstp_state \<times> int" where
  "dlmstp_send_pdu h s dest npdu_data pdu_arg pdu_len_arg =
    (case pdu_arg of
       None \<Rightarrow> (s, - 1)
     | Some bytes \<Rightarrow>
        if pdu_len_arg = 0 \<or> MAX_MPDU h < unat pdu_len_arg then (s, - 1)
        else if ready (Transmit_Packet s) then (s, - 2)
        else
          let destination_mac =
                (case dest of
                   Some d \<Rightarrow> if mac_len d = 1 then mac d ! 0 else MSTP_BROADCAST_ADDRESS
                 | None \<Rightarrow> MSTP_BROADCAST_ADDRESS);
              tp1 = (Transmit_Packet s)
                \<lparr> pdu := memcpy (pdu (Transmit_Packet s)) bytes (unat pdu_len_arg),
                  pdu_len := ucast pdu_len_arg,
                  destination := destination_mac \<rparr>;
              tp2 = tp1
                \<lparr> frame_type :=
                    (case npdu_data of
                       Some n \<Rightarrow>
                         if data_expecting_reply n
                         then FRAME_TYPE_BACNET_DATA_EXPECTING_REPLY h
                         else FRAME_TYPE_BACNET_DATA_NOT_EXPECTING_REPLY h
                     | None \<Rightarrow> FRAME_TYPE_BACNET_DATA_NOT_EXPECTING_REPLY h) \<rparr>;
              tp3 = tp2\<lparr> ready := True \<rparr>
          in (s\<lparr>Transmit_Packet := tp3\<rparr>, sint pdu_len_arg))"

text \<open>
  \<^verbatim>\<open>MSTP_Init\<close> belongs to the state machine of the stack, outside the port:
  the setter takes it as a parameter.
\<close>

definition dlmstp_set_mac_address ::
  "('f mstp_port_struct_t \<Rightarrow> 'f mstp_port_struct_t) \<Rightarrow> 'f dlmstp_state \<Rightarrow> uint8_t
     \<Rightarrow> 'f dlmstp_state" where
  "dlmstp_set_mac_address MSTP_Init s mac_address =
    (if mac_address \<le> 254 then
       let s1 = s\<lparr>This_Station_var := mac_address\<rparr>
       in if This_Station (MSTP_Port s1) \<noteq> mac_address
          then s1\<lparr>MSTP_Port := MSTP_Init ((MSTP_Port s1)\<lparr>This_Station := mac_address\<rparr>)\<rparr>
          else s1
     else s)"

definition dlmstp_mac_address :: "'f dlmstp_state \<Rightarrow> uint8_t" where
  "dlmstp_mac_address s = This_Station_var s"

definition dlmstp_set_max_master :: "'f dlmstp_state \<Rightarrow> uint8_t \<Rightarrow> 'f dlmstp_state" where
  "dlmstp_set_max_master s max_master =
    (if max_master \<le> 127 then
       s\<lparr> Max_Master := max_master,
          MSTP_Port := (MSTP_Port s)\<lparr>Nmax_master := max_master\<rparr> \<rparr>
     else s)"

definition dlmstp_max_master :: "'f dlmstp_state \<Rightarrow> uint8_t" where
  "dlmstp_max_master s = Max_Master s"

definition dlmstp_set_max_info_frames :: "'f dlmstp_state \<Rightarrow> uint8_t \<Rightarrow> 'f dlmstp_state" where
  "dlmstp_set_max_info_frames s max_info_frames =
    (if 1 \<le> max_info_frames then
       s\<lparr> Max_Info_Frames := max_info_frames,
          MSTP_Port := (MSTP_Port s)\<lparr>Nmax_info_frames := max_info_frames\<rparr> \<rparr>
     else s)"

definition dlmstp_max_info_frames :: "'f dlmstp_state \<Rightarrow> uint8_t" where
  "dlmstp_max_info_frames s = Max_Info_Frames s"

text \<open>The \<^verbatim>\<open>switch\<close> of \<^verbatim>\<open>dlmstp_set_baud_rate\<close>, with the flag it returns.\<close>

definition dlmstp_set_baud_rate :: "'f dlmstp_state \<Rightarrow> uint32_t \<Rightarrow> 'f dlmstp_state \<times> bool" where
  "dlmstp_set_baud_rate s baud =
    (if baud = 9600 \<or> baud = 19200 \<or> baud = 38400 \<or> baud = 57600
        \<or> baud = 76800 \<or> baud = 115200
     then (RS485_Set_Baud_Rate s baud, True)
     else (s, False))"

definition dlmstp_rs485_rx_event :: "'f dlmstp_state \<Rightarrow> 'f dlmstp_state" where
  "dlmstp_rs485_rx_event s = s\<lparr>MSTP_Port := (MSTP_Port s)\<lparr>SilenceTimer := 0\<rparr>\<rparr>"

subsection \<open>Callbacks of the MS/TP state machine\<close>

text \<open>Reading and writing through a buffer pointer of the port structure.\<close>

definition buffer_of :: "'f dlmstp_state \<Rightarrow> buffer_ptr \<Rightarrow> uint8_t list" where
  "buffer_of s p =
    (case p of
       NULL \<Rightarrow> []
     | Receive_Buffer_ptr \<Rightarrow> Receive_Buffer s
     | Transmit_Buffer_ptr \<Rightarrow> Transmit_Buffer s)"

definition buffer_store :: "'f dlmstp_state \<Rightarrow> buffer_ptr \<Rightarrow> uint8_t list \<Rightarrow> 'f dlmstp_state" where
  "buffer_store s p bytes =
    (case p of
       NULL \<Rightarrow> s
     | Receive_Buffer_ptr \<Rightarrow> s\<lparr>Receive_Buffer := bytes\<rparr>
     | Transmit_Buffer_ptr \<Rightarrow> s\<lparr>Transmit_Buffer := bytes\<rparr>)"

text \<open>
  \<^verbatim>\<open>MSTP_Create_Frame\<close> is the frame codec of the stack, outside the port. It
  is a parameter: from the content of the output buffer, its size, frame type,
  destination, source, payload and payload length it yields the new content of
  the buffer and the frame length. The codec reads the payload and writes the
  buffer it is given, nothing else.
\<close>

type_synonym create_frame_t =
  "uint8_t list \<Rightarrow> uint16_t \<Rightarrow> uint8_t \<Rightarrow> uint8_t \<Rightarrow> uint8_t \<Rightarrow> uint8_t list \<Rightarrow> uint16_t
     \<Rightarrow> uint8_t list \<times> uint16_t"

text \<open>
  \<^verbatim>\<open>MSTP_Get_Send\<close>, on the one port structure the facade owns. The timeout
  is not used.
\<close>

definition MSTP_Get_Send ::
  "create_frame_t \<Rightarrow> 'f dlmstp_state \<Rightarrow> uint32_t \<Rightarrow> 'f dlmstp_state \<times> uint16_t" where
  "MSTP_Get_Send MSTP_Create_Frame s timeout =
    (if ready (Transmit_Packet s) then
       let (out, n) =
             MSTP_Create_Frame
               (buffer_of s (OutputBuffer (MSTP_Port s))) (OutputBufferSize (MSTP_Port s))
               (frame_type (Transmit_Packet s)) (destination (Transmit_Packet s))
               (This_Station (MSTP_Port s)) (pdu (Transmit_Packet s))
               (pdu_len (Transmit_Packet s));
           s1 = buffer_store s (OutputBuffer (MSTP_Port s)) out
       in if 0 < n
          then (s1\<lparr>Transmit_Packet := (Transmit_Packet s1)\<lparr>ready := False\<rparr>\<rparr>, n)
          else (s1, n)
     else (s, 0))"

text \<open>
  \<^verbatim>\<open>MSTP_Put_Receive\<close>. The call of \<^verbatim>\<open>npdu_handler\<close> is recorded in
  \<open>npdu_handler_calls\<close>; what the upper layer does with the packet is outside
  the port.
\<close>

definition MSTP_Put_Receive :: "mstp_defs \<Rightarrow> 'f dlmstp_state \<Rightarrow> 'f dlmstp_state \<times> uint16_t" where
  "MSTP_Put_Receive h s =
    (if DestinationAddress (MSTP_Port s) = This_Station (MSTP_Port s)
        \<or> DestinationAddress (MSTP_Port s) = MSTP_BROADCAST_ADDRESS
     then
       let (s1, n) =
             (if FrameType (MSTP_Port s) = FRAME_TYPE_BACNET_DATA_NOT_EXPECTING_REPLY h
                 \<or> FrameType (MSTP_Port s) = FRAME_TYPE_BACNET_DATA_EXPECTING_REPLY h
              then
                if 0 < DataLength (MSTP_Port s) then
                  let ra = (Receive_Address s)
                        \<lparr> mac_len := 1,
                          mac := (mac (Receive_Address s))[0 := SourceAddress (MSTP_Port s)],
                          net := 0, len := 0 \<rparr>;
                      rl = DataLength (MSTP_Port s)
                  in (s\<lparr> Receive_Address := ra, Receive_PDU_Len := rl,
                          npdu_handler_calls :=
                            npdu_handler_calls s @ [(ra, InputBuffer (MSTP_Port s), rl)] \<rparr>,
                      DataLength (MSTP_Port s))
                else (s, 0)
              else if FrameType (MSTP_Port s) = FRAME_TYPE_TEST_REQUEST h
              then (s, DataLength (MSTP_Port s))
              else (s, 0))
       in (s1\<lparr>Valid_Frame_Count := Valid_Frame_Count s1 + 1\<rparr>, n)
     else (s, 0))"

definition MSTP_SilenceTimer :: "'f dlmstp_state \<Rightarrow> uint32_t" where
  "MSTP_SilenceTimer s = mstimer_now s"

definition MSTP_SilenceTimerReset :: "'f dlmstp_state \<Rightarrow> 'f dlmstp_state" where
  "MSTP_SilenceTimerReset s = s"

subsection \<open>Sequences of configuration calls\<close>

datatype setter_call =
    Set_mac_address uint8_t
  | Set_max_master uint8_t
  | Set_max_info_frames uint8_t

fun apply_setter ::
  "('f mstp_port_struct_t \<Rightarrow> 'f mstp_port_struct_t) \<Rightarrow> 'f dlmstp_state \<Rightarrow> setter_call
     \<Rightarrow> 'f dlmstp_state" where
  "apply_setter MSTP_Init s (Set_mac_address a) = dlmstp_set_mac_address MSTP_Init s a"
| "apply_setter MSTP_Init s (Set_max_master m) = dlmstp_set_max_master s m"
| "apply_setter MSTP_Init s (Set_max_info_frames k) = dlmstp_set_max_info_frames s k"

text \<open>The configuration as the three getters report it.\<close>

definition config_in_range :: "'f dlmstp_state \<Rightarrow> bool" where
  "config_in_range s \<longleftrightarrow>
     unat (dlmstp_mac_address s) \<le> 254
   \<and> unat (dlmstp_max_master s) \<le> 127
   \<and> 1 \<le> unat (dlmstp_max_info_frames s)"

subsection \<open>Sample parameters and states\<close>

text \<open>
  One choice of the parameters, to run the functions on concrete inputs: the
  port's \<^verbatim>\<open>MAX_MPDU\<close> of 501, 7-byte MAC addresses and the frame type codes
  3, 5 and 6; a state machine whose
  remaining state is one number that \<open>sample_MSTP_Init\<close> sets back to 0; and
  two stand-ins for the frame codec, one that never has room and one that lays
  out header and payload (checksum bytes left zero) when the buffer is large
  enough.
\<close>

definition sample_defs :: mstp_defs where
  "sample_defs =
    \<lparr> MAX_MPDU = 501, MAX_MAC_LEN = 7, FRAME_TYPE_TEST_REQUEST = 3,
      FRAME_TYPE_BACNET_DATA_EXPECTING_REPLY = 5,
      FRAME_TYPE_BACNET_DATA_NOT_EXPECTING_REPLY = 6 \<rparr>"

definition sample_MSTP_Init :: "nat mstp_port_struct_t \<Rightarrow> nat mstp_port_struct_t" where
  "sample_MSTP_Init p = p\<lparr>fsm := 0\<rparr>"

definition codec_no_room :: create_frame_t where
  "codec_no_room buf cap ft dst src payload n = (buf, 0)"

definition codec_plain :: create_frame_t where
  "codec_plain buf cap ft dst src payload n =
    (let frame = [0x55, 0xFF, ft, dst, src, ucast (drop_bit 8 n), ucast n, 0]
                   @ take (unat n) payload
     in if unat cap < length frame then (buf, 0)
        else (memcpy buf frame (length frame), word_of_nat (length frame)))"

text \<open>
  The facade as \<^verbatim>\<open>dlmstp_init\<close> leaves it (buffers attached, configuration
  copied into the port, UART1 set to 19200 baud by \<^verbatim>\<open>RS485_Initialize\<close>), one
  second after start.
\<close>

definition running_state :: "nat dlmstp_state" where
  "running_state =
    (startup_state sample_defs 1)
      \<lparr> MSTP_Port := (MSTP_Port (startup_state sample_defs 1))
          \<lparr> This_Station := 1, Nmax_master := 127, Nmax_info_frames := 1,
            InputBuffer := Receive_Buffer_ptr, InputBufferSize := 501,
            OutputBuffer := Transmit_Buffer_ptr, OutputBufferSize := 501 \<rparr>,
        millisecond_counter := 1000,
        U1BRG := 1040 \<rparr>"

definition sample_dest :: BACNET_ADDRESS where
  "sample_dest = \<lparr> mac_len = 1, mac = [10, 0, 0, 0, 0, 0, 0], net = 0, len = 0 \<rparr>"

definition broadcast_dest :: BACNET_ADDRESS where
  "broadcast_dest = \<lparr> mac_len = 1, mac = [0xFF, 0, 0, 0, 0, 0, 0], net = 0xFFFF, len = 0 \<rparr>"

text \<open>A three-byte packet for station 10 has been staged.\<close>

definition pending_state :: "nat dlmstp_state" where
  "pending_state =
    fst (dlmstp_send_pdu sample_defs running_state (Some sample_dest) None
          (Some [0xAA, 0xAA, 0xAA]) 3)"

text \<open>
  The state machine has received a three-byte data frame from station 9, sent
  to everybody, respectively to station 7.
\<close>

definition received_broadcast_state :: "nat dlmstp_state" where
  "received_broadcast_state =
    running_state
      \<lparr> MSTP_Port := (MSTP_Port running_state)
          \<lparr> DestinationAddress := 0xFF, SourceAddress := 9,
            FrameType := 6, DataLength := 3 \<rparr> \<rparr>"

definition received_foreign_state :: "nat dlmstp_state" where
  "received_foreign_state =
    running_state
      \<lparr> MSTP_Port := (MSTP_Port running_state)
          \<lparr> DestinationAddress := 7, SourceAddress := 9,
            FrameType := 6, DataLength := 3 \<rparr> \<rparr>"

section \<open>Properties\<close>

subsection \<open>Auxiliary facts\<close>

text \<open>A length below 2^31 survives the conversion from \<^verbatim>\<open>unsigned\<close> to \<^verbatim>\<open>int\<close>.\<close>

lemma sint_small: "unat (n :: uint32_t) < 2 ^ 31 \<Longrightarrow> sint n = int (unat n)"
proof -
  assume a: "unat n < 2 ^ 31"
  have "int (unat n) < int (2 ^ 31)" using a by (simp only: of_nat_less_iff)
  then have "uint n < 2 ^ 31" by simp
  moreover have "- (2 ^ 31) \<le> uint n"
  proof -
    have "- (2 ^ 31) \<le> (0::int)" by simp
    also have "(0::int) \<le> uint n" by simp
    finally show ?thesis .
  qed
  ultimately have "signed_take_bit 31 (uint n) = uint n"
    by (intro signed_take_bit_int_eq_self)
  then show ?thesis by (simp add: sint_uint)
qed

text \<open>The three exits of \<open>dlmstp_send_pdu\<close>.\<close>

lemma send_pdu_cases:
  "dlmstp_send_pdu h s dest npdu_data pdu_arg n =
    (if pdu_arg = None \<or> n = 0 \<or> MAX_MPDU h < unat n then (s, - 1)
     else if ready (Transmit_Packet s) then (s, - 2)
     else (fst (dlmstp_send_pdu h s dest npdu_data pdu_arg n), sint n))"
  by (simp add: dlmstp_send_pdu_def Let_def split: option.split)

lemma send_pdu_busy:
  "ready (Transmit_Packet s) \<Longrightarrow>
     dlmstp_send_pdu h s dest npdu_data pdu_arg n = (s, - 1)
   \<or> dlmstp_send_pdu h s dest npdu_data pdu_arg n = (s, - 2)"
  by (simp add: dlmstp_send_pdu_def split: option.split)

lemma le_254_unat: "(a :: uint8_t) \<le> 254 \<longleftrightarrow> unat a \<le> 254"
  by (simp add: word_le_nat_alt)

lemma le_127_unat: "(a :: uint8_t) \<le> 127 \<longleftrightarrow> unat a \<le> 127"
  by (simp add: word_le_nat_alt)

lemma ge_1_unat: "1 \<le> (a :: uint8_t) \<longleftrightarrow> 1 \<le> unat a"
  by (simp add: word_le_nat_alt)

lemma apply_setter_in_range:
  "config_in_range s \<Longrightarrow> config_in_range (apply_setter MSTP_Init s c)"
  by (cases c)
     (auto simp: config_in_range_def dlmstp_set_mac_address_def dlmstp_set_max_master_def
        dlmstp_set_max_info_frames_def dlmstp_mac_address_def dlmstp_max_master_def
        dlmstp_max_info_frames_def Let_def le_254_unat le_127_unat ge_1_unat)

lemma setters_in_range:
  "config_in_range s \<Longrightarrow> config_in_range (foldl (apply_setter MSTP_Init) s calls)"
  by (induction calls arbitrary: s) (simp_all add: apply_setter_in_range)

lemma startup_in_range: "config_in_range (startup_state h f0)"
  by (simp add: config_in_range_def startup_state_def dlmstp_mac_address_def
      dlmstp_max_master_def dlmstp_max_info_frames_def)

lemma running_in_range: "config_in_range running_state"
  by (simp add: config_in_range_def running_state_def startup_state_def dlmstp_mac_address_def
      dlmstp_max_master_def dlmstp_max_info_frames_def)

text \<open>
  \<^verbatim>\<open>memcpy\<close> within bounds, the truncating store of a short length, and the
  state an accepted call of \<open>dlmstp_send_pdu\<close> leaves.
\<close>

lemma memcpy_take_drop:
  "n \<le> length src \<Longrightarrow> n \<le> length dst \<Longrightarrow> memcpy dst src n = take n src @ drop n dst"
  by (rule nth_equalityI) (auto simp: memcpy_def nth_append)

lemma ucast_small: "unat (n :: uint32_t) < 2 ^ 16 \<Longrightarrow> unat (ucast n :: uint16_t) = unat n"
  by (simp add: unsigned_ucast_eq take_bit_nat_eq_self)

lemma send_pdu_accepted:
  assumes "n \<noteq> 0" and "unat n \<le> MAX_MPDU h" and "\<not> ready (Transmit_Packet s)"
  shows "dlmstp_send_pdu h s dest npdu_data (Some bytes) n =
    (s\<lparr>Transmit_Packet := (Transmit_Packet s)
         \<lparr> pdu := memcpy (pdu (Transmit_Packet s)) bytes (unat n),
           pdu_len := ucast n,
           destination :=
             (case dest of
                Some d \<Rightarrow> if mac_len d = 1 then mac d ! 0 else 0xFF
              | None \<Rightarrow> 0xFF),
           frame_type :=
             (if \<exists>nd. npdu_data = Some nd \<and> data_expecting_reply nd
              then FRAME_TYPE_BACNET_DATA_EXPECTING_REPLY h
              else FRAME_TYPE_BACNET_DATA_NOT_EXPECTING_REPLY h),
           ready := True \<rparr>\<rparr>,
     sint n)"
  using assms
  by (auto simp: dlmstp_send_pdu_def Let_def MSTP_BROADCAST_ADDRESS_def split: option.split)


text \<open>The sample state with a staged packet, written out.\<close>

lemma pending_state_eq:
  "pending_state = running_state
     \<lparr>Transmit_Packet :=
        \<lparr> ready = True, destination = 10, frame_type = 6,
          pdu = [0xAA, 0xAA, 0xAA] @ replicate 498 0, pdu_len = 3 \<rparr>\<rparr>"
proof -
  have n0: "(3 :: uint32_t) \<noteq> 0" by simp
  have n1: "unat (3 :: uint32_t) \<le> MAX_MPDU sample_defs" by (simp add: sample_defs_def)
  have r: "\<not> ready (Transmit_Packet running_state)"
    by (simp add: running_state_def startup_state_def)
  show ?thesis
    unfolding pending_state_def
      send_pdu_accepted [OF n0 n1 r, of "Some sample_dest" None "[0xAA, 0xAA, 0xAA]"]
    by (simp add: running_state_def startup_state_def sample_defs_def sample_dest_def
        memcpy_take_drop)
qed

text \<open>
  The value \<open>MSTP_SilenceTimer\<close> reports is the tick counter, which the
  byte-received event does not touch.
\<close>

lemma silence_timer_reads_tick_counter:
  "MSTP_SilenceTimer (dlmstp_rs485_rx_event s) = millisecond_counter s"
  by (simp add: MSTP_SilenceTimer_def mstimer_now_def dlmstp_rs485_rx_event_def)

subsection \<open>Timer arithmetic\<close>

text \<open>
  C5. For every start tick, interval and current tick of the 32-bit counter,
  also when the counter has wrapped and now is below start, \<open>mstimer_elapsed\<close>
  is (now - start) mod 2^32, a non-negative value, and \<open>mstimer_expired\<close> is
  true (nonzero) exactly when that value is at least the interval.
\<close>

theorem mstimer_elapsed_wraparound:
  "uint (mstimer_elapsed s (Some tm))
     = (uint (millisecond_counter s) - uint (start tm)) mod 2 ^ 32
   \<and> 0 \<le> uint (mstimer_elapsed s (Some tm))
   \<and> (mstimer_expired s (Some tm) \<noteq> 0)
     = (uint (interval tm)
         \<le> (uint (millisecond_counter s) - uint (start tm)) mod 2 ^ 32)"
proof -
  have e: "uint (millisecond_counter s - start tm)
             = (uint (millisecond_counter s) - uint (start tm)) mod 2 ^ 32"
    by (simp add: uint_word_ariths)
  have x: "(mstimer_expired s (Some tm) \<noteq> 0)
             = (uint (interval tm) \<le> uint (millisecond_counter s - start tm))"
    by (simp add: mstimer_expired_def word_le_def)
  show ?thesis
    unfolding mstimer_elapsed_def option.case using e x by simp
qed

text \<open>
  The counter has wrapped: it reads 5, the timer was started at 2^32 - 2, so
  7 ms have passed; a 7 ms timer has expired, an 8 ms timer has not.
\<close>

theorem mstimer_elapsed_wraparound_witness:
  "uint (mstimer_elapsed (running_state\<lparr>millisecond_counter := 5\<rparr>)
           (Some \<lparr>start = 0xFFFFFFFE, interval = 7\<rparr>)) = 7
   \<and> mstimer_expired (running_state\<lparr>millisecond_counter := 5\<rparr>)
           (Some \<lparr>start = 0xFFFFFFFE, interval = 7\<rparr>) \<noteq> 0
   \<and> mstimer_expired (running_state\<lparr>millisecond_counter := 5\<rparr>)
           (Some \<lparr>start = 0xFFFFFFFE, interval = 8\<rparr>) = 0"
  using mstimer_elapsed_wraparound
          [of "running_state\<lparr>millisecond_counter := 5\<rparr>" "\<lparr>start = 0xFFFFFFFE, interval = 7\<rparr>"]
        mstimer_elapsed_wraparound
          [of "running_state\<lparr>millisecond_counter := 5\<rparr>" "\<lparr>start = 0xFFFFFFFE, interval = 8\<rparr>"]
  by simp

subsection \<open>Staging a packet for transmission\<close>

text \<open>
  C1. In every state in which a transmit packet is staged (the \<open>ready\<close> flag
  is set), a further call of \<open>dlmstp_send_pdu\<close>, whatever its arguments,
  returns a negative value and leaves the state as it was; in particular the
  destination, frame type, payload bytes, payload length and \<open>ready\<close> flag of
  the staged packet are those from before the call.
\<close>

theorem send_pdu_rejected_while_pending:
  assumes "ready (Transmit_Packet s)"
  shows "snd (dlmstp_send_pdu h s dest npdu_data pdu_arg n) < 0
    \<and> fst (dlmstp_send_pdu h s dest npdu_data pdu_arg n) = s
    \<and> destination (Transmit_Packet (fst (dlmstp_send_pdu h s dest npdu_data pdu_arg n)))
        = destination (Transmit_Packet s)
    \<and> frame_type (Transmit_Packet (fst (dlmstp_send_pdu h s dest npdu_data pdu_arg n)))
        = frame_type (Transmit_Packet s)
    \<and> pdu (Transmit_Packet (fst (dlmstp_send_pdu h s dest npdu_data pdu_arg n)))
        = pdu (Transmit_Packet s)
    \<and> pdu_len (Transmit_Packet (fst (dlmstp_send_pdu h s dest npdu_data pdu_arg n)))
        = pdu_len (Transmit_Packet s)
    \<and> ready (Transmit_Packet (fst (dlmstp_send_pdu h s dest npdu_data pdu_arg n)))"
  using send_pdu_busy [OF assms, of h dest npdu_data pdu_arg n] assms by auto

theorem send_pdu_rejected_while_pending_witness:
  "ready (Transmit_Packet pending_state)
   \<and> snd (dlmstp_send_pdu sample_defs pending_state (Some broadcast_dest) None
            (Some [1, 2]) 2) < 0
   \<and> fst (dlmstp_send_pdu sample_defs pending_state (Some broadcast_dest) None
            (Some [1, 2]) 2) = pending_state
   \<and> destination (Transmit_Packet (fst (dlmstp_send_pdu sample_defs pending_state
            (Some broadcast_dest) None (Some [1, 2]) 2))) = 10
   \<and> pdu (Transmit_Packet (fst (dlmstp_send_pdu sample_defs pending_state
            (Some broadcast_dest) None (Some [1, 2]) 2)))
       = [0xAA, 0xAA, 0xAA] @ replicate 498 0"
proof -
  have h: "ready (Transmit_Packet pending_state)"
    by (simp add: pending_state_eq)
  have p: "pdu (Transmit_Packet pending_state) = [0xAA, 0xAA, 0xAA] @ replicate 498 0"
          "destination (Transmit_Packet pending_state) = 10"
    by (simp_all add: pending_state_eq)
  from send_pdu_rejected_while_pending
         [OF h, of sample_defs "Some broadcast_dest" None "Some [1, 2]" 2] h p
  show ?thesis by simp
qed

text \<open>
  C2. \<open>dlmstp_send_pdu\<close> returns a negative value exactly when the payload
  pointer is null, the length is zero, the length exceeds \<open>MAX_MPDU\<close>, or a
  packet is already pending, and a rejected call leaves the state untouched.
  An accepted call returns the payload length, and that many bytes are staged:
  the stored length is the payload length, the first bytes of the packet
  buffer are the payload and the others keep their content, destination and
  frame type are set from the arguments, the packet is marked ready, and
  nothing outside \<open>Transmit_Packet\<close> changes. \<open>MAX_MPDU\<close> is below 2^16 (in the
  port it is 501), so that a length fits the 16-bit member and the \<^verbatim>\<open>int\<close>
  returned; the payload holds at least the given number of bytes and so does
  the packet buffer.
\<close>

theorem send_pdu_result:
  assumes "MAX_MPDU h < 2 ^ 16"
  shows "(snd (dlmstp_send_pdu h s dest npdu_data pdu_arg n) < 0)
      = (pdu_arg = None \<or> n = 0 \<or> MAX_MPDU h < unat n \<or> ready (Transmit_Packet s))
    \<and> (snd (dlmstp_send_pdu h s dest npdu_data pdu_arg n) < 0
        \<longrightarrow> fst (dlmstp_send_pdu h s dest npdu_data pdu_arg n) = s)
    \<and> (\<not> snd (dlmstp_send_pdu h s dest npdu_data pdu_arg n) < 0 \<longrightarrow>
          snd (dlmstp_send_pdu h s dest npdu_data pdu_arg n) = int (unat n)
        \<and> ready (Transmit_Packet (fst (dlmstp_send_pdu h s dest npdu_data pdu_arg n)))
        \<and> unat (pdu_len (Transmit_Packet (fst (dlmstp_send_pdu h s dest npdu_data pdu_arg n))))
            = unat n
        \<and> (\<forall>bytes. pdu_arg = Some bytes \<and> unat n \<le> length bytes
                \<and> unat n \<le> length (pdu (Transmit_Packet s)) \<longrightarrow>
              pdu (Transmit_Packet (fst (dlmstp_send_pdu h s dest npdu_data pdu_arg n)))
                = take (unat n) bytes @ drop (unat n) (pdu (Transmit_Packet s)))
        \<and> destination (Transmit_Packet (fst (dlmstp_send_pdu h s dest npdu_data pdu_arg n)))
            = (case dest of
                 Some d \<Rightarrow> if mac_len d = 1 then mac d ! 0 else 0xFF
               | None \<Rightarrow> 0xFF)
        \<and> frame_type (Transmit_Packet (fst (dlmstp_send_pdu h s dest npdu_data pdu_arg n)))
            = (if \<exists>nd. npdu_data = Some nd \<and> data_expecting_reply nd
               then FRAME_TYPE_BACNET_DATA_EXPECTING_REPLY h
               else FRAME_TYPE_BACNET_DATA_NOT_EXPECTING_REPLY h)
        \<and> fst (dlmstp_send_pdu h s dest npdu_data pdu_arg n)
            = s\<lparr>Transmit_Packet :=
                  Transmit_Packet (fst (dlmstp_send_pdu h s dest npdu_data pdu_arg n))\<rparr>)"
proof (cases "pdu_arg = None \<or> n = 0 \<or> MAX_MPDU h < unat n \<or> ready (Transmit_Packet s)")
  case True
  then have "dlmstp_send_pdu h s dest npdu_data pdu_arg n = (s, - 1)
     \<or> dlmstp_send_pdu h s dest npdu_data pdu_arg n = (s, - 2)"
    by (subst (1 2) send_pdu_cases) auto
  with True show ?thesis by auto
next
  case False
  then obtain bytes where b: "pdu_arg = Some bytes" by auto
  from False have g: "n \<noteq> 0" "unat n \<le> MAX_MPDU h" "\<not> ready (Transmit_Packet s)"
    by auto
  have lt: "unat n < 2 ^ 16" using g(2) assms by simp
  then have "unat n < 2 ^ 31" by simp
  then have v: "sint n = int (unat n)" by (rule sint_small)
  have u: "unat (ucast n :: uint16_t) = unat n" using lt by (rule ucast_small)
  note e = send_pdu_accepted [OF g, of dest npdu_data bytes]
  show ?thesis
    unfolding b e using False v u by (simp add: memcpy_take_drop)
qed

theorem send_pdu_result_witness:
  "MAX_MPDU sample_defs < 2 ^ 16
   \<and> snd (dlmstp_send_pdu sample_defs running_state (Some sample_dest) None
            (Some [0xAA, 0xAA, 0xAA]) 3) = 3
   \<and> unat (pdu_len (Transmit_Packet (fst (dlmstp_send_pdu sample_defs running_state
            (Some sample_dest) None (Some [0xAA, 0xAA, 0xAA]) 3)))) = 3
   \<and> pdu (Transmit_Packet (fst (dlmstp_send_pdu sample_defs running_state
            (Some sample_dest) None (Some [0xAA, 0xAA, 0xAA]) 3)))
       = [0xAA, 0xAA, 0xAA] @ replicate 498 0
   \<and> destination (Transmit_Packet (fst (dlmstp_send_pdu sample_defs running_state
            (Some sample_dest) None (Some [0xAA, 0xAA, 0xAA]) 3))) = 10
   \<and> frame_type (Transmit_Packet (fst (dlmstp_send_pdu sample_defs running_state
            (Some sample_dest) None (Some [0xAA, 0xAA, 0xAA]) 3))) = 6
   \<and> ready (Transmit_Packet (fst (dlmstp_send_pdu sample_defs running_state
            (Some sample_dest) None (Some [0xAA, 0xAA, 0xAA]) 3)))
   \<and> snd (dlmstp_send_pdu sample_defs running_state (Some sample_dest) None
            (Some [0xAA, 0xAA, 0xAA]) 0) < 0
   \<and> fst (dlmstp_send_pdu sample_defs running_state (Some sample_dest) None
            (Some [0xAA, 0xAA, 0xAA]) 0) = running_state
   \<and> snd (dlmstp_send_pdu sample_defs running_state (Some sample_dest) None
            (Some [0xAA, 0xAA, 0xAA]) 502) < 0
   \<and> snd (dlmstp_send_pdu sample_defs running_state (Some sample_dest) None None 3) < 0"
proof -
  have h: "MAX_MPDU sample_defs < 2 ^ 16"
    by (simp add: sample_defs_def)
  have r: "\<not> ready (Transmit_Packet running_state)"
    by (simp add: running_state_def startup_state_def)
  have m: "MAX_MPDU sample_defs = 501"
    by (simp add: sample_defs_def)
  have l: "length (pdu (Transmit_Packet running_state)) = 501"
          "drop 3 (pdu (Transmit_Packet running_state)) = replicate 498 0"
    by (simp_all add: running_state_def startup_state_def sample_defs_def)
  have t: "FRAME_TYPE_BACNET_DATA_NOT_EXPECTING_REPLY sample_defs = 6"
    by (simp add: sample_defs_def)
  have d: "mac_len sample_dest = 1" "mac sample_dest ! 0 = 10"
    by (simp_all add: sample_dest_def)
  note w3 = send_pdu_result
         [OF h, of running_state "Some sample_dest" None "Some [0xAA, 0xAA, 0xAA]" 3]
  have a: "\<not> snd (dlmstp_send_pdu sample_defs running_state (Some sample_dest) None
                    (Some [0xAA, 0xAA, 0xAA]) 3) < 0"
    using w3 [THEN conjunct1] r m by simp
  note acc = w3 [THEN conjunct2, THEN conjunct2, rule_format, OF a]
  have c1: "snd (dlmstp_send_pdu sample_defs running_state (Some sample_dest) None
            (Some [0xAA, 0xAA, 0xAA]) 3) = 3"
    using acc [THEN conjunct1] by simp
  have c2: "unat (pdu_len (Transmit_Packet (fst (dlmstp_send_pdu sample_defs running_state
            (Some sample_dest) None (Some [0xAA, 0xAA, 0xAA]) 3)))) = 3"
    using acc by simp
  have c3: "pdu (Transmit_Packet (fst (dlmstp_send_pdu sample_defs running_state
            (Some sample_dest) None (Some [0xAA, 0xAA, 0xAA]) 3)))
       = [0xAA, 0xAA, 0xAA] @ replicate 498 0"
    using acc l by simp
  have c4: "destination (Transmit_Packet (fst (dlmstp_send_pdu sample_defs running_state
            (Some sample_dest) None (Some [0xAA, 0xAA, 0xAA]) 3))) = 10"
    using acc d by simp
  have c5: "frame_type (Transmit_Packet (fst (dlmstp_send_pdu sample_defs running_state
            (Some sample_dest) None (Some [0xAA, 0xAA, 0xAA]) 3))) = 6"
    using acc t by simp
  have c6: "ready (Transmit_Packet (fst (dlmstp_send_pdu sample_defs running_state
            (Some sample_dest) None (Some [0xAA, 0xAA, 0xAA]) 3)))"
    using acc by blast
  note w0 = send_pdu_result
         [OF h, of running_state "Some sample_dest" None "Some [0xAA, 0xAA, 0xAA]" 0]
  have c7: "snd (dlmstp_send_pdu sample_defs running_state (Some sample_dest) None
            (Some [0xAA, 0xAA, 0xAA]) 0) < 0"
    using w0 [THEN conjunct1] by simp
  have c8: "fst (dlmstp_send_pdu sample_defs running_state (Some sample_dest) None
            (Some [0xAA, 0xAA, 0xAA]) 0) = running_state"
    using w0 c7 by blast
  have c9: "snd (dlmstp_send_pdu sample_defs running_state (Some sample_dest) None
            (Some [0xAA, 0xAA, 0xAA]) 502) < 0"
    using send_pdu_result
         [OF h, of running_state "Some sample_dest" None "Some [0xAA, 0xAA, 0xAA]" 502,
          THEN conjunct1] m
    by simp
  have c10: "snd (dlmstp_send_pdu sample_defs running_state (Some sample_dest) None None 3) < 0"
    using send_pdu_result [OF h, of running_state "Some sample_dest" None None 3, THEN conjunct1]
    by simp
  show ?thesis
    by (intro conjI h c1 c2 c3 c4 c5 c6 c7 c8 c9 c10)
qed

text \<open>
  C10. For a call of \<open>dlmstp_send_pdu\<close> with a payload, a length between 1
  and \<open>MAX_MPDU\<close>, and no packet pending: if the destination pointer is null
  or its \<open>mac_len\<close> is not 1, the call does not fail. The payload length is
  returned and the frame is staged for the broadcast address 0xFF: the packet
  is marked ready, its stored length is the payload length, its first bytes
  are the payload, its frame type follows the reply flag, and nothing outside
  \<open>Transmit_Packet\<close> changes. State and result are those of the same call with
  an explicit one-byte destination 0xFF. \<open>MAX_MPDU\<close> is below 2^16 as in C2.
\<close>

theorem send_pdu_default_broadcast:
  assumes "MAX_MPDU h < 2 ^ 16"
    and "n \<noteq> 0" and "unat n \<le> MAX_MPDU h"
    and "\<not> ready (Transmit_Packet s)"
    and "dest = None \<or> (\<exists>d. dest = Some d \<and> mac_len d \<noteq> 1)"
    and "mac_len b = 1" and "mac b ! 0 = 0xFF"
  shows "snd (dlmstp_send_pdu h s dest npdu_data (Some bytes) n) = int (unat n)
    \<and> destination (Transmit_Packet (fst (dlmstp_send_pdu h s dest npdu_data (Some bytes) n)))
        = 0xFF
    \<and> ready (Transmit_Packet (fst (dlmstp_send_pdu h s dest npdu_data (Some bytes) n)))
    \<and> unat (pdu_len (Transmit_Packet (fst (dlmstp_send_pdu h s dest npdu_data (Some bytes) n))))
        = unat n
    \<and> (unat n \<le> length bytes \<and> unat n \<le> length (pdu (Transmit_Packet s)) \<longrightarrow>
          pdu (Transmit_Packet (fst (dlmstp_send_pdu h s dest npdu_data (Some bytes) n)))
            = take (unat n) bytes @ drop (unat n) (pdu (Transmit_Packet s)))
    \<and> frame_type (Transmit_Packet (fst (dlmstp_send_pdu h s dest npdu_data (Some bytes) n)))
        = (if \<exists>nd. npdu_data = Some nd \<and> data_expecting_reply nd
           then FRAME_TYPE_BACNET_DATA_EXPECTING_REPLY h
           else FRAME_TYPE_BACNET_DATA_NOT_EXPECTING_REPLY h)
    \<and> fst (dlmstp_send_pdu h s dest npdu_data (Some bytes) n)
        = s\<lparr>Transmit_Packet :=
              Transmit_Packet (fst (dlmstp_send_pdu h s dest npdu_data (Some bytes) n))\<rparr>
    \<and> dlmstp_send_pdu h s dest npdu_data (Some bytes) n
        = dlmstp_send_pdu h s (Some b) npdu_data (Some bytes) n"
proof -
  have lt: "unat n < 2 ^ 16" using assms(1,3) by simp
  then have "unat n < 2 ^ 31" by simp
  then have v: "sint n = int (unat n)" by (rule sint_small)
  have u: "unat (ucast n :: uint16_t) = unat n" using lt by (rule ucast_small)
  note g = assms(2,3,4)
  have d: "(case dest of
              Some d \<Rightarrow> if mac_len d = 1 then mac d ! 0 else 0xFF
            | None \<Rightarrow> (0xFF :: uint8_t)) = 0xFF"
    using assms(5) by auto
  have d': "(case Some b of
              Some d \<Rightarrow> if mac_len d = 1 then mac d ! 0 else 0xFF
            | None \<Rightarrow> (0xFF :: uint8_t)) = 0xFF"
    using assms(6,7) by simp
  show ?thesis
    unfolding send_pdu_accepted [OF g] d d' using v u by (simp add: memcpy_take_drop)
qed
theorem send_pdu_default_broadcast_witness:
  "MAX_MPDU sample_defs < 2 ^ 16 \<and> (3 :: uint32_t) \<noteq> 0
   \<and> unat (3 :: uint32_t) \<le> MAX_MPDU sample_defs
   \<and> \<not> ready (Transmit_Packet running_state)
   \<and> mac_len broadcast_dest = 1 \<and> mac broadcast_dest ! 0 = 0xFF
   \<and> mac_len (sample_dest\<lparr>mac_len := 6\<rparr>) \<noteq> 1
   \<and> snd (dlmstp_send_pdu sample_defs running_state None None (Some [1, 2, 3]) 3) = 3
   \<and> destination (Transmit_Packet
        (fst (dlmstp_send_pdu sample_defs running_state None None (Some [1, 2, 3]) 3))) = 0xFF
   \<and> unat (pdu_len (Transmit_Packet
        (fst (dlmstp_send_pdu sample_defs running_state None None (Some [1, 2, 3]) 3)))) = 3
   \<and> pdu (Transmit_Packet
        (fst (dlmstp_send_pdu sample_defs running_state None None (Some [1, 2, 3]) 3)))
       = [1, 2, 3] @ replicate 498 0
   \<and> frame_type (Transmit_Packet
        (fst (dlmstp_send_pdu sample_defs running_state None None (Some [1, 2, 3]) 3))) = 6
   \<and> destination (Transmit_Packet
        (fst (dlmstp_send_pdu sample_defs running_state (Some (sample_dest\<lparr>mac_len := 6\<rparr>))
               None (Some [1, 2, 3]) 3))) = 0xFF
   \<and> dlmstp_send_pdu sample_defs running_state None None (Some [1, 2, 3]) 3
       = dlmstp_send_pdu sample_defs running_state (Some broadcast_dest) None (Some [1, 2, 3]) 3"
proof -
  have h: "MAX_MPDU sample_defs < 2 ^ 16"
    by (simp add: sample_defs_def)
  have n0: "(3 :: uint32_t) \<noteq> 0" by simp
  have n1: "unat (3 :: uint32_t) \<le> MAX_MPDU sample_defs"
    by (simp add: sample_defs_def)
  have r: "\<not> ready (Transmit_Packet running_state)"
    by (simp add: running_state_def startup_state_def)
  have d0: "(None :: BACNET_ADDRESS option) = None
              \<or> (\<exists>d. (None :: BACNET_ADDRESS option) = Some d \<and> mac_len d \<noteq> 1)"
    by simp
  have l6: "mac_len (sample_dest\<lparr>mac_len := 6\<rparr>) \<noteq> 1" by simp
  then have d6: "Some (sample_dest\<lparr>mac_len := 6\<rparr>) = None
              \<or> (\<exists>d. Some (sample_dest\<lparr>mac_len := 6\<rparr>) = Some d \<and> mac_len d \<noteq> 1)"
    by simp
  have b1: "mac_len broadcast_dest = 1" by (simp add: broadcast_dest_def)
  have b2: "mac broadcast_dest ! 0 = 0xFF" by (simp add: broadcast_dest_def)
  have l: "length (pdu (Transmit_Packet running_state)) = 501"
          "drop 3 (pdu (Transmit_Packet running_state)) = replicate 498 0"
    by (simp_all add: running_state_def startup_state_def sample_defs_def)
  have t: "FRAME_TYPE_BACNET_DATA_NOT_EXPECTING_REPLY sample_defs = 6"
    by (simp add: sample_defs_def)
  note w0 = send_pdu_default_broadcast [OF h n0 n1 r d0 b1 b2, of None "[1, 2, 3]"]
  note w6 = send_pdu_default_broadcast [OF h n0 n1 r d6 b1 b2, of None "[1, 2, 3]"]
  have c1: "snd (dlmstp_send_pdu sample_defs running_state None None (Some [1, 2, 3]) 3) = 3"
    using w0 [THEN conjunct1] by simp
  have c2: "destination (Transmit_Packet
        (fst (dlmstp_send_pdu sample_defs running_state None None (Some [1, 2, 3]) 3))) = 0xFF"
    using w0 by blast
  have c3: "destination (Transmit_Packet
        (fst (dlmstp_send_pdu sample_defs running_state (Some (sample_dest\<lparr>mac_len := 6\<rparr>))
               None (Some [1, 2, 3]) 3))) = 0xFF"
    using w6 by blast
  have c4: "dlmstp_send_pdu sample_defs running_state None None (Some [1, 2, 3]) 3
       = dlmstp_send_pdu sample_defs running_state (Some broadcast_dest) None (Some [1, 2, 3]) 3"
    using w0 by blast
  note st = w0 [THEN conjunct2, THEN conjunct2, THEN conjunct2]
  have c5: "unat (pdu_len (Transmit_Packet
        (fst (dlmstp_send_pdu sample_defs running_state None None (Some [1, 2, 3]) 3)))) = 3"
    using st [THEN conjunct1] by simp
  have c6: "pdu (Transmit_Packet
        (fst (dlmstp_send_pdu sample_defs running_state None None (Some [1, 2, 3]) 3)))
       = [1, 2, 3] @ replicate 498 0"
    using st [THEN conjunct2, THEN conjunct1] l by simp
  have c7: "frame_type (Transmit_Packet
        (fst (dlmstp_send_pdu sample_defs running_state None None (Some [1, 2, 3]) 3))) = 6"
    using st [THEN conjunct2, THEN conjunct2, THEN conjunct1] t by simp
  show ?thesis
    by (intro conjI h n0 n1 r b1 b2 l6 c1 c2 c5 c6 c7 c3 c4)
qed

text \<open>
  C7. While a packet is pending, \<open>MSTP_Get_Send\<close> returns the length that
  \<open>MSTP_Create_Frame\<close> reports; it clears the \<open>ready\<close> flag, and changes
  nothing else of the staged packet, exactly when that length is nonzero; when
  the length is zero the staged packet stays pending and unmodified. When no
  packet is pending it returns zero and leaves the state as it was.
\<close>

theorem get_send_clears_on_success:
  assumes "MSTP_Create_Frame
             (buffer_of s (OutputBuffer (MSTP_Port s))) (OutputBufferSize (MSTP_Port s))
             (frame_type (Transmit_Packet s)) (destination (Transmit_Packet s))
             (This_Station (MSTP_Port s)) (pdu (Transmit_Packet s))
             (pdu_len (Transmit_Packet s)) = (out, n)"
  shows "(ready (Transmit_Packet s) \<longrightarrow>
            snd (MSTP_Get_Send MSTP_Create_Frame s t) = n
          \<and> (n \<noteq> 0 \<longrightarrow> Transmit_Packet (fst (MSTP_Get_Send MSTP_Create_Frame s t))
                          = (Transmit_Packet s)\<lparr>ready := False\<rparr>)
          \<and> (n = 0 \<longrightarrow> Transmit_Packet (fst (MSTP_Get_Send MSTP_Create_Frame s t))
                          = Transmit_Packet s))
      \<and> (\<not> ready (Transmit_Packet s) \<longrightarrow> MSTP_Get_Send MSTP_Create_Frame s t = (s, 0))"
  using assms
  by (cases "OutputBuffer (MSTP_Port s)")
     (auto simp: MSTP_Get_Send_def buffer_store_def Let_def word_greater_zero_iff)

theorem get_send_clears_on_success_witness:
  "ready (Transmit_Packet pending_state)
   \<and> snd (MSTP_Get_Send codec_plain pending_state 0) = 11
   \<and> \<not> ready (Transmit_Packet (fst (MSTP_Get_Send codec_plain pending_state 0)))
   \<and> snd (MSTP_Get_Send codec_no_room pending_state 0) = 0
   \<and> Transmit_Packet (fst (MSTP_Get_Send codec_no_room pending_state 0))
       = Transmit_Packet pending_state
   \<and> \<not> ready (Transmit_Packet running_state)
   \<and> MSTP_Get_Send codec_plain running_state 0 = (running_state, 0)"
proof -
  have h: "ready (Transmit_Packet pending_state)"
    by (simp add: pending_state_eq)
  have r: "\<not> ready (Transmit_Packet running_state)"
    by (simp add: running_state_def startup_state_def)
  have c1: "codec_plain
              (buffer_of pending_state (OutputBuffer (MSTP_Port pending_state)))
              (OutputBufferSize (MSTP_Port pending_state))
              (frame_type (Transmit_Packet pending_state))
              (destination (Transmit_Packet pending_state))
              (This_Station (MSTP_Port pending_state)) (pdu (Transmit_Packet pending_state))
              (pdu_len (Transmit_Packet pending_state))
            = ([0x55, 0xFF, 6, 10, 1, 0, 3, 0, 0xAA, 0xAA, 0xAA] @ replicate 490 0, 11)"
    by (simp add: pending_state_eq running_state_def startup_state_def sample_defs_def
        buffer_of_def codec_plain_def Let_def memcpy_take_drop)
  have c2: "codec_no_room
              (buffer_of pending_state (OutputBuffer (MSTP_Port pending_state)))
              (OutputBufferSize (MSTP_Port pending_state))
              (frame_type (Transmit_Packet pending_state))
              (destination (Transmit_Packet pending_state))
              (This_Station (MSTP_Port pending_state)) (pdu (Transmit_Packet pending_state))
              (pdu_len (Transmit_Packet pending_state))
            = (buffer_of pending_state (OutputBuffer (MSTP_Port pending_state)), 0)"
    by (simp add: codec_no_room_def)
  obtain out n where c3: "codec_plain
              (buffer_of running_state (OutputBuffer (MSTP_Port running_state)))
              (OutputBufferSize (MSTP_Port running_state))
              (frame_type (Transmit_Packet running_state))
              (destination (Transmit_Packet running_state))
              (This_Station (MSTP_Port running_state)) (pdu (Transmit_Packet running_state))
              (pdu_len (Transmit_Packet running_state)) = (out, n)"
    by (cases "codec_plain
              (buffer_of running_state (OutputBuffer (MSTP_Port running_state)))
              (OutputBufferSize (MSTP_Port running_state))
              (frame_type (Transmit_Packet running_state))
              (destination (Transmit_Packet running_state))
              (This_Station (MSTP_Port running_state)) (pdu (Transmit_Packet running_state))
              (pdu_len (Transmit_Packet running_state))") blast
  note w1 = get_send_clears_on_success
              [where MSTP_Create_Frame = codec_plain and s = pending_state and t = 0, OF c1]
  note w2 = get_send_clears_on_success
              [where MSTP_Create_Frame = codec_no_room and s = pending_state and t = 0, OF c2]
  note w3 = get_send_clears_on_success
              [where MSTP_Create_Frame = codec_plain and s = running_state and t = 0, OF c3]
  have g1: "snd (MSTP_Get_Send codec_plain pending_state 0) = 11"
    using w1 h by blast
  have "Transmit_Packet (fst (MSTP_Get_Send codec_plain pending_state 0))
          = (Transmit_Packet pending_state)\<lparr>ready := False\<rparr>"
    using w1 h by simp
  then have g2: "\<not> ready (Transmit_Packet (fst (MSTP_Get_Send codec_plain pending_state 0)))"
    by simp
  have g3: "snd (MSTP_Get_Send codec_no_room pending_state 0) = 0"
    using w2 h by blast
  have g4: "Transmit_Packet (fst (MSTP_Get_Send codec_no_room pending_state 0))
              = Transmit_Packet pending_state"
    using w2 h by blast
  have g5: "MSTP_Get_Send codec_plain running_state 0 = (running_state, 0)"
    using w3 r by blast
  show ?thesis
    by (intro conjI h g1 g2 g3 g4 r g5)
qed

subsection \<open>Receiving\<close>

text \<open>
  C6. \<open>MSTP_Put_Receive\<close> calls \<open>npdu_handler\<close> (once, with the source
  address, the input buffer and the data length) exactly when the destination
  of the frame is this station or 0xFF, the frame type is BACnet data
  expecting reply or not expecting reply, and the data length is above zero;
  otherwise no call is made. For a frame whose destination is neither this
  station nor 0xFF nothing at all changes and 0 is returned.
\<close>

theorem put_receive_delivery:
  "npdu_handler_calls (fst (MSTP_Put_Receive h s)) =
     (if (DestinationAddress (MSTP_Port s) = This_Station (MSTP_Port s)
            \<or> DestinationAddress (MSTP_Port s) = 0xFF)
          \<and> (FrameType (MSTP_Port s) = FRAME_TYPE_BACNET_DATA_EXPECTING_REPLY h
            \<or> FrameType (MSTP_Port s) = FRAME_TYPE_BACNET_DATA_NOT_EXPECTING_REPLY h)
          \<and> 0 < unat (DataLength (MSTP_Port s))
      then npdu_handler_calls s @
        [(\<lparr> mac_len = 1, mac = (mac (Receive_Address s))[0 := SourceAddress (MSTP_Port s)],
            net = 0, len = 0 \<rparr>,
          InputBuffer (MSTP_Port s), DataLength (MSTP_Port s))]
      else npdu_handler_calls s)
   \<and> (DestinationAddress (MSTP_Port s) \<noteq> This_Station (MSTP_Port s)
        \<and> DestinationAddress (MSTP_Port s) \<noteq> 0xFF
        \<longrightarrow> MSTP_Put_Receive h s = (s, 0))"
  by (simp add: MSTP_Put_Receive_def MSTP_BROADCAST_ADDRESS_def Let_def word_greater_zero_iff
      unat_gt_0)

theorem put_receive_delivery_witness:
  "DestinationAddress (MSTP_Port received_foreign_state)
      \<noteq> This_Station (MSTP_Port received_foreign_state)
   \<and> DestinationAddress (MSTP_Port received_foreign_state) \<noteq> 0xFF
   \<and> MSTP_Put_Receive sample_defs received_foreign_state = (received_foreign_state, 0)
   \<and> npdu_handler_calls (fst (MSTP_Put_Receive sample_defs received_broadcast_state))
       = [(\<lparr> mac_len = 1, mac = [9, 0, 0, 0, 0, 0, 0], net = 0, len = 0 \<rparr>,
           Receive_Buffer_ptr, 3)]"
proof -
  have f: "DestinationAddress (MSTP_Port received_foreign_state) = 7"
          "This_Station (MSTP_Port received_foreign_state) = 1"
    by (simp_all add: received_foreign_state_def running_state_def startup_state_def)
  have b: "DestinationAddress (MSTP_Port received_broadcast_state) = 0xFF"
          "FrameType (MSTP_Port received_broadcast_state) = 6"
          "DataLength (MSTP_Port received_broadcast_state) = 3"
          "SourceAddress (MSTP_Port received_broadcast_state) = 9"
          "InputBuffer (MSTP_Port received_broadcast_state) = Receive_Buffer_ptr"
          "mac (Receive_Address received_broadcast_state) = [0, 0, 0, 0, 0, 0, 0]"
          "npdu_handler_calls received_broadcast_state = []"
    by code_simp+
  have t: "FRAME_TYPE_BACNET_DATA_NOT_EXPECTING_REPLY sample_defs = 6"
    by (simp add: sample_defs_def)
  from put_receive_delivery [of sample_defs received_foreign_state]
       put_receive_delivery [of sample_defs received_broadcast_state] f b t
  show ?thesis by simp
qed

text \<open>
  C3, as the code behaves. One second after start a byte arrives: the event
  handler zeroes the member \<open>SilenceTimer\<close> of the port structure, but the
  value the state machine obtains through \<open>MSTP_SilenceTimer\<close> is still the
  tick counter, 1000, not zero.
\<close>

theorem silence_timer_after_rx_event:
  "MSTP_SilenceTimer (dlmstp_rs485_rx_event running_state) = 1000
   \<and> SilenceTimer (MSTP_Port (dlmstp_rs485_rx_event running_state)) = 0"
  by (simp add: MSTP_SilenceTimer_def mstimer_now_def dlmstp_rs485_rx_event_def
      running_state_def startup_state_def)

subsection \<open>Configuration\<close>

text \<open>
  C4. \<open>dlmstp_set_baud_rate\<close> returns true exactly for the rates 9600,
  19200, 38400, 57600, 76800 and 115200. For these it programs the baud rate
  generator with 80000000 div (4 * rate) - 1 and changes nothing else; for
  every other value the state, and with it the rate configured before, is
  unchanged.
\<close>

theorem set_baud_rate_enumerated:
  "snd (dlmstp_set_baud_rate s baud)
      = (baud \<in> {9600, 19200, 38400, 57600, 76800, 115200})
   \<and> (baud \<in> {9600, 19200, 38400, 57600, 76800, 115200} \<longrightarrow>
        fst (dlmstp_set_baud_rate s baud)
          = s\<lparr>U1BRG := word_of_nat (80000000 div (4 * unat baud) - 1)\<rparr>)
   \<and> (baud \<notin> {9600, 19200, 38400, 57600, 76800, 115200} \<longrightarrow>
        fst (dlmstp_set_baud_rate s baud) = s)"
  by (auto simp: dlmstp_set_baud_rate_def RS485_Set_Baud_Rate_def GetPeripheralClock_def)

theorem set_baud_rate_enumerated_witness:
  "U1BRG running_state = 1040
   \<and> snd (dlmstp_set_baud_rate running_state 9600)
   \<and> U1BRG (fst (dlmstp_set_baud_rate running_state 9600)) = 2082
   \<and> \<not> snd (dlmstp_set_baud_rate running_state 12345)
   \<and> fst (dlmstp_set_baud_rate running_state 12345) = running_state
   \<and> \<not> snd (dlmstp_set_baud_rate (fst (dlmstp_set_baud_rate running_state 9600)) 12345)
   \<and> U1BRG (fst (dlmstp_set_baud_rate (fst (dlmstp_set_baud_rate running_state 9600)) 12345))
       = 2082"
proof -
  have u: "U1BRG running_state = 1040"
    by (simp add: running_state_def)
  have i: "(9600 :: uint32_t) \<in> {9600, 19200, 38400, 57600, 76800, 115200}" by simp
  have o: "(12345 :: uint32_t) \<notin> {9600, 19200, 38400, 57600, 76800, 115200}" by simp
  from set_baud_rate_enumerated [of running_state 9600]
       set_baud_rate_enumerated [of running_state 12345]
       set_baud_rate_enumerated [of "fst (dlmstp_set_baud_rate running_state 9600)" 12345] i o u
  show ?thesis by simp
qed

text \<open>
  C8. The station address, max master and max info frames that the getters
  report are within 0..254, 0..127 and 1..255 at start and stay so under any
  sequence of calls of the three setters. \<open>dlmstp_set_mac_address\<close> with an
  argument above 254, \<open>dlmstp_set_max_master\<close> with an argument above 127 and
  \<open>dlmstp_set_max_info_frames\<close> with 0 leave the whole state unchanged;
  arguments in range are applied.
\<close>

theorem setters_keep_configuration_in_range:
  "config_in_range (startup_state h f0)
   \<and> (config_in_range s \<longrightarrow> config_in_range (foldl (apply_setter MSTP_Init) s calls))
   \<and> (254 < unat a \<longrightarrow> dlmstp_set_mac_address MSTP_Init s a = s)
   \<and> (127 < unat m \<longrightarrow> dlmstp_set_max_master s m = s)
   \<and> dlmstp_set_max_info_frames s 0 = s
   \<and> (unat a \<le> 254 \<longrightarrow> dlmstp_mac_address (dlmstp_set_mac_address MSTP_Init s a) = a)
   \<and> (unat m \<le> 127 \<longrightarrow>
        dlmstp_max_master (dlmstp_set_max_master s m) = m
      \<and> Nmax_master (MSTP_Port (dlmstp_set_max_master s m)) = m)
   \<and> (1 \<le> unat k \<longrightarrow>
        dlmstp_max_info_frames (dlmstp_set_max_info_frames s k) = k
      \<and> Nmax_info_frames (MSTP_Port (dlmstp_set_max_info_frames s k)) = k)"
proof -
  have r: "config_in_range s \<longrightarrow> config_in_range (foldl (apply_setter MSTP_Init) s calls)"
    by (simp add: setters_in_range)
  have rej: "254 < unat a \<longrightarrow> dlmstp_set_mac_address MSTP_Init s a = s"
    "127 < unat m \<longrightarrow> dlmstp_set_max_master s m = s"
    "dlmstp_set_max_info_frames s 0 = s"
    by (auto simp: dlmstp_set_mac_address_def dlmstp_set_max_master_def
        dlmstp_set_max_info_frames_def le_254_unat le_127_unat)
  have app: "unat a \<le> 254 \<longrightarrow> dlmstp_mac_address (dlmstp_set_mac_address MSTP_Init s a) = a"
    "unat m \<le> 127 \<longrightarrow>
        dlmstp_max_master (dlmstp_set_max_master s m) = m
      \<and> Nmax_master (MSTP_Port (dlmstp_set_max_master s m)) = m"
    "1 \<le> unat k \<longrightarrow>
        dlmstp_max_info_frames (dlmstp_set_max_info_frames s k) = k
      \<and> Nmax_info_frames (MSTP_Port (dlmstp_set_max_info_frames s k)) = k"
    by (auto simp: dlmstp_set_mac_address_def dlmstp_set_max_master_def
        dlmstp_set_max_info_frames_def dlmstp_mac_address_def dlmstp_max_master_def
        dlmstp_max_info_frames_def Let_def le_254_unat le_127_unat ge_1_unat)
  show ?thesis
    by (intro conjI startup_in_range r rej app)
qed

theorem setters_keep_configuration_in_range_witness:
  "config_in_range running_state
   \<and> config_in_range (foldl (apply_setter sample_MSTP_Init) running_state
        [Set_mac_address 255, Set_max_master 200, Set_max_info_frames 0,
         Set_mac_address 5, Set_max_master 64, Set_max_info_frames 10])
   \<and> dlmstp_set_mac_address sample_MSTP_Init running_state 255 = running_state
   \<and> dlmstp_set_max_master running_state 200 = running_state
   \<and> dlmstp_set_max_info_frames running_state 0 = running_state
   \<and> dlmstp_mac_address (dlmstp_set_mac_address sample_MSTP_Init running_state 5) = 5
   \<and> dlmstp_max_master (dlmstp_set_max_master running_state 64) = 64
   \<and> dlmstp_max_info_frames (dlmstp_set_max_info_frames running_state 10) = 10"
proof -
  have c: "config_in_range running_state" by (rule running_in_range)
  note w = setters_keep_configuration_in_range
         [of sample_defs "0 :: nat" running_state sample_MSTP_Init
             "[Set_mac_address 255, Set_max_master 200, Set_max_info_frames 0,
               Set_mac_address 5, Set_max_master 64, Set_max_info_frames 10]"
             255 200 10]
  note v = setters_keep_configuration_in_range
         [of sample_defs "0 :: nat" running_state sample_MSTP_Init "[]" 5 64 10]
  have hi: "254 < unat (255 :: uint8_t)" "127 < unat (200 :: uint8_t)" by simp_all
  have lo: "unat (5 :: uint8_t) \<le> 254" "unat (64 :: uint8_t) \<le> 127"
    "1 \<le> unat (10 :: uint8_t)" by simp_all
  have c1: "config_in_range (foldl (apply_setter sample_MSTP_Init) running_state
        [Set_mac_address 255, Set_max_master 200, Set_max_info_frames 0,
         Set_mac_address 5, Set_max_master 64, Set_max_info_frames 10])"
    using w c by blast
  have c2: "dlmstp_set_mac_address sample_MSTP_Init running_state 255 = running_state"
    using w hi by blast
  have c3: "dlmstp_set_max_master running_state 200 = running_state"
    using w hi by blast
  have c4: "dlmstp_set_max_info_frames running_state 0 = running_state"
    using w by blast
  have c5: "dlmstp_mac_address (dlmstp_set_mac_address sample_MSTP_Init running_state 5) = 5"
    using v lo by blast
  have c6: "dlmstp_max_master (dlmstp_set_max_master running_state 64) = 64"
    using v lo by blast
  have c7: "dlmstp_max_info_frames (dlmstp_set_max_info_frames running_state 10) = 10"
    using v lo by blast
  show ?thesis
    by (intro conjI c c1 c2 c3 c4 c5 c6 c7)
qed

text \<open>
  C9. \<open>dlmstp_set_mac_address\<close> with an address in 0..254 that differs from
  the station address held by the state machine stores the address, installs
  it in the port structure and runs \<open>MSTP_Init\<close> on that structure. With the
  address the state machine already holds, only the facade's own copy is
  written: the port structure is left alone and \<open>MSTP_Init\<close> is not run.
\<close>

theorem set_mac_address_reset:
  assumes "a \<le> 254"
  shows "(This_Station (MSTP_Port s) \<noteq> a \<longrightarrow>
            dlmstp_set_mac_address MSTP_Init s a
              = s\<lparr> This_Station_var := a,
                   MSTP_Port := MSTP_Init ((MSTP_Port s)\<lparr>This_Station := a\<rparr>) \<rparr>)
       \<and> (This_Station (MSTP_Port s) = a \<longrightarrow>
            dlmstp_set_mac_address MSTP_Init s a = s\<lparr>This_Station_var := a\<rparr>
          \<and> MSTP_Port (dlmstp_set_mac_address MSTP_Init s a) = MSTP_Port s)"
  using assms by (simp add: dlmstp_set_mac_address_def Let_def)

theorem set_mac_address_reset_witness:
  "(5 :: uint8_t) \<le> 254 \<and> This_Station (MSTP_Port running_state) \<noteq> 5
   \<and> fsm (MSTP_Port running_state) = 1
   \<and> fsm (MSTP_Port (dlmstp_set_mac_address sample_MSTP_Init running_state 5)) = 0
   \<and> This_Station (MSTP_Port (dlmstp_set_mac_address sample_MSTP_Init running_state 5)) = 5
   \<and> (1 :: uint8_t) \<le> 254 \<and> This_Station (MSTP_Port running_state) = 1
   \<and> dlmstp_set_mac_address sample_MSTP_Init running_state 1 = running_state"
proof -
  have a5: "(5 :: uint8_t) \<le> 254" by simp
  have a1: "(1 :: uint8_t) \<le> 254" by simp
  have p: "This_Station (MSTP_Port running_state) = 1" "fsm (MSTP_Port running_state) = 1"
          "This_Station_var running_state = 1"
    by (simp_all add: running_state_def startup_state_def)
  from set_mac_address_reset [OF a5, of running_state sample_MSTP_Init]
       set_mac_address_reset [OF a1, of running_state sample_MSTP_Init] p
  show ?thesis by (simp add: sample_MSTP_Init_def)
qed

end
